theory Spec2Isabelle
  imports Complex_Main "HOL-Library.Log_Nat"
begin

section \<open>Lab 8: the predator-prey and pendulum right-hand sides\<close>

text \<open>
  The notebook \<^verbatim>\<open>notebooks/lab-08.ipynb\<close> defines two right-hand-side functions for
  \<^verbatim>\<open>scipy.integrate.odeint\<close>, an objective for \<^verbatim>\<open>scipy.optimize.minimize\<close> and a few
  cells that print results. NumPy arrays of shape \<open>(n,)\<close> are lists of numbers, and the
  numbers of the notebook's code are IEEE 754 binary64 values.
\<close>

subsection \<open>Errors\<close>

text \<open>
  \<^verbatim>\<open>r, f = rf\<close> raises \<^verbatim>\<open>ValueError\<close> unless \<^verbatim>\<open>rf\<close> has exactly two entries;
  an index out of range raises \<^verbatim>\<open>IndexError\<close>.
\<close>

datatype py_error = ValueError | IndexError

subsection \<open>Binary64 arithmetic\<close>

text \<open>
  A \<^verbatim>\<open>float64\<close> is a finite number, an infinity or a NaN. A finite value carries the
  real number it stands for; every result of the operations below is representable
  (an integer multiple of the quantum of its binade, at most 53 bits long). The two
  zeros are not told apart: they compare equal, and no operation of the notebook
  depends on the sign of a zero.
\<close>

datatype f64 = Finite real | PInf | NInf | NaN

text \<open>Rounding to the nearest integer, ties to the even one.\<close>

definition rne :: "real \<Rightarrow> int" where
  "rne x =
     (let n = \<lfloor>x\<rfloor>; d = x - of_int n
      in if d < 1 / 2 then n
         else if 1 / 2 < d then n + 1
         else if even n then n else n + 1)"

text \<open>
  The exponent \<open>e\<close> of the binade \<open>2 ^ e \<le> \<bar>x\<bar> < 2 ^ (e + 1)\<close> of \<open>x\<close>, and \<open>- 1022\<close>
  for the subnormal range and zero. It is read off the bit length of \<open>\<bar>x\<bar>\<close> scaled
  by \<open>2 ^ 1074\<close>, the inverse of the least positive value.
\<close>

definition binade :: "real \<Rightarrow> int" where
  "binade x = max (bitlen \<lfloor>\<bar>x\<bar> * 2 ^ 1074\<rfloor> - 1075) (- 1022)"

text \<open>
  Round to nearest, ties to even: \<open>x\<close> goes to the nearest multiple of the quantum
  \<open>2 ^ (e - 52)\<close> of its binade, and to an infinity when that is \<open>2 ^ 1024\<close> or more
  in magnitude.
\<close>

definition round_f64 :: "real \<Rightarrow> f64" where
  "round_f64 x =
     (let q = 2 powi (binade x - 52);
          y = of_int (rne (x / q)) * q
      in if 2 ^ 1024 \<le> \<bar>y\<bar> then (if 0 < x then PInf else NInf) else Finite y)"

fun fneg :: "f64 \<Rightarrow> f64" where
  "fneg (Finite x) = Finite (- x)"
| "fneg PInf = NInf"
| "fneg NInf = PInf"
| "fneg NaN = NaN"

fun fadd :: "f64 \<Rightarrow> f64 \<Rightarrow> f64" where
  "fadd (Finite x) (Finite y) = round_f64 (x + y)"
| "fadd NaN b = NaN"
| "fadd a NaN = NaN"
| "fadd (Finite x) b = b"
| "fadd a (Finite y) = a"
| "fadd a b = (if a = b then a else NaN)"

definition fsub :: "f64 \<Rightarrow> f64 \<Rightarrow> f64" where
  "fsub a b = fadd a (fneg b)"

fun fmul :: "f64 \<Rightarrow> f64 \<Rightarrow> f64" where
  "fmul (Finite x) (Finite y) = round_f64 (x * y)"
| "fmul NaN b = NaN"
| "fmul a NaN = NaN"
| "fmul (Finite x) b = (if x = 0 then NaN else if 0 < x then b else fneg b)"
| "fmul a (Finite y) = (if y = 0 then NaN else if 0 < y then a else fneg a)"
| "fmul a b = (if a = b then PInf else NInf)"

text \<open>A decimal literal of the program text denotes the nearest \<^verbatim>\<open>float64\<close>.\<close>

definition lit :: "real \<Rightarrow> f64" where
  "lit x = round_f64 x"

subsection \<open>The predator-prey derivative\<close>

text \<open>
  \<^verbatim>\<open>
  def drfdt(rf, t):
      r, f = rf
      drdt = 0.08*r - 0.0004*r*f
      dfdt = -0.09*f + 0.0005*r*f
      return array([drdt, dfdt])
  \<close>
  Products associate to the left, and \<^verbatim>\<open>-0.09*f\<close> is \<^verbatim>\<open>(-0.09)*f\<close>.
\<close>

fun drfdt :: "f64 list \<Rightarrow> f64 \<Rightarrow> py_error + f64 list" where
  "drfdt [r, f] t =
     (let drdt = fsub (fmul (lit 0.08) r) (fmul (fmul (lit 0.0004) r) f);
          dfdt = fadd (fmul (fneg (lit 0.09)) f) (fmul (fmul (lit 0.0005) r) f)
      in Inr [drdt, dfdt])"
| "drfdt _ t = Inl ValueError"

text \<open>The initial state of every \<^verbatim>\<open>odeint(drfdt, [300, 100], ...)\<close> call of the notebook.\<close>

definition rf0 :: "f64 list" where
  "rf0 = [Finite 300, Finite 100]"

text \<open>
  The same body evaluated in exact real arithmetic: the literals are the decimal
  fractions themselves and no operation rounds. This is the reading under which the
  equilibrium and the sign structure of the right-hand side are stated.
\<close>

fun drfdt_exact :: "real list \<Rightarrow> real \<Rightarrow> py_error + real list" where
  "drfdt_exact [r, f] t =
     (let drdt = 0.08 * r - 0.0004 * r * f;
          dfdt = - 0.09 * f + 0.0005 * r * f
      in Inr [drdt, dfdt])"
| "drfdt_exact _ t = Inl ValueError"

subsection \<open>The pendulum derivative\<close>

text \<open>
  Modelled from the spec: the body of \<^verbatim>\<open>dthetavdt\<close>. The notebook holds only its
  header \<^verbatim>\<open>def dthetavdt(thetav, t):\<close>, the placeholder of the exercise and the
  acceptance cell. The spec gives the derivative of the state \<open>(\<theta>, v)\<close> as
  \<open>(v, - (g/L) sin \<theta>)\<close> with \<open>g/L\<close> fixed at 10 and no dependence on \<open>t\<close>. The
  state is unpacked as in \<^const>\<open>drfdt\<close>, and the body is taken over the reals.
\<close>

definition g_over_L :: real where
  "g_over_L = 10"

fun dthetavdt :: "real list \<Rightarrow> real \<Rightarrow> py_error + real list" where
  "dthetavdt [theta, v] t = Inr [v, - g_over_L * sin theta]"
| "dthetavdt _ t = Inl ValueError"

text \<open>
  The acceptance cell compares with \<^verbatim>\<open>numpy.allclose\<close> at its default tolerances:
  \<^verbatim>\<open>abs(a - b) <= atol + rtol * abs(b)\<close> in every component, with
  \<^verbatim>\<open>rtol = 1e-05\<close> and \<^verbatim>\<open>atol = 1e-08\<close>. Both arguments have shape \<open>(2,)\<close> there,
  so no broadcasting is involved.
\<close>

definition rtol :: real where
  "rtol = 1 / 10 ^ 5"

definition atol :: real where
  "atol = 1 / 10 ^ 8"

definition isclose :: "real \<Rightarrow> real \<Rightarrow> bool" where
  "isclose a b \<longleftrightarrow> \<bar>a - b\<bar> \<le> atol + rtol * \<bar>b\<bar>"

fun allclose :: "real list \<Rightarrow> real list \<Rightarrow> bool" where
  "allclose [] [] = True"
| "allclose (a # as) (b # bs) = (isclose a b \<and> allclose as bs)"
| "allclose _ _ = False"

subsection \<open>The objective of the minimisation\<close>

text \<open>
  \<^verbatim>\<open>odeint\<close> and \<^verbatim>\<open>minimize\<close> are SciPy routines, imported by the setup cell. They
  are parameters of the notebook's own code: a solver maps a derivative function, an
  initial state and a sequence of times to a trajectory (one row per time) or raises; a
  minimiser maps an objective and a starting guess to a result record or raises.
\<close>

type_synonym deriv = "f64 list \<Rightarrow> f64 \<Rightarrow> py_error + f64 list"

type_synonym solver = "deriv \<Rightarrow> f64 list \<Rightarrow> f64 list \<Rightarrow> py_error + f64 list list"

text \<open>Indexing \<^verbatim>\<open>xs[i]\<close>: a negative index counts from the end.\<close>

definition py_item :: "'a list \<Rightarrow> int \<Rightarrow> py_error + 'a" where
  "py_item xs i =
     (let n = int (length xs);
          k = (if i < 0 then i + n else i)
      in if 0 \<le> k \<and> k < n then Inr (xs ! nat k) else Inl IndexError)"

text \<open>
  \<^verbatim>\<open>
  def rabbits(t):
      return odeint(drfdt, [300, 100], [0, t])[-1, 0]
  \<close>
\<close>

definition rabbits :: "solver \<Rightarrow> f64 \<Rightarrow> py_error + f64" where
  "rabbits odeint t =
     (case odeint drfdt [Finite 300, Finite 100] [Finite 0, t] of
        Inl e \<Rightarrow> Inl e
      | Inr traj \<Rightarrow>
          (case py_item traj (- 1) of
             Inl e \<Rightarrow> Inl e
           | Inr row \<Rightarrow> py_item row 0))"

subsection \<open>The cells around the minimiser\<close>

text \<open>
  The record \<^verbatim>\<open>minimize\<close> returns: the notebook reads its field \<^verbatim>\<open>x\<close> and prints the
  whole record. \<open>res_x\<close> is \<^verbatim>\<open>x\<close>, \<open>res_success\<close> is the flag \<^verbatim>\<open>success\<close>,
  \<open>res_fun\<close> is \<^verbatim>\<open>fun\<close>, \<open>res_message\<close> is \<^verbatim>\<open>message\<close>.
\<close>

record opt_result =
  res_x :: "f64 list"
  res_success :: bool
  res_fun :: f64
  res_message :: string

type_synonym minimizer = "(f64 \<Rightarrow> py_error + f64) \<Rightarrow> f64 \<Rightarrow> py_error + opt_result"

text \<open>What a cell writes: a \<^verbatim>\<open>print\<close> of several values, or of a result record.\<close>

datatype py_value = Str string | Num f64

datatype cell_output = Print "py_value list" | Print_result opt_result

text \<open>
  \<^verbatim>\<open>
  result = minimize(rabbits, 40)
  print(result)
  \<close>
  The cell binds \<^verbatim>\<open>result\<close> and prints it.
\<close>

definition cell_minimize :: "minimizer \<Rightarrow> solver \<Rightarrow> py_error + opt_result \<times> cell_output list" where
  "cell_minimize minimize odeint =
     (case minimize (rabbits odeint) (Finite 40) of
        Inl e \<Rightarrow> Inl e
      | Inr result \<Rightarrow> Inr (result, [Print_result result]))"

text \<open>
  \<^verbatim>\<open>
  print('rabbits rebounded after', result.x[0], 'years')
  \<close>
\<close>

definition cell_rebound :: "opt_result \<Rightarrow> py_error + cell_output list" where
  "cell_rebound result =
     (case py_item (res_x result) 0 of
        Inl e \<Rightarrow> Inl e
      | Inr x0 \<Rightarrow> Inr [Print [Str ''rabbits rebounded after'', Num x0, Str ''years'']])"

section \<open>Evaluating binary64 arithmetic\<close>



























section \<open>Properties of the predator-prey derivative\<close>







text \<open>
  Claim C9. In exact real arithmetic the state \<open>(180, 200)\<close> is an equilibrium: for
  every time \<open>t\<close>, \<open>drfdt\<close> at \<open>(180, 200)\<close> is the zero vector.
\<close>

theorem drfdt_equilibrium:
  "drfdt_exact [180, 200] t = Inr [0, 0]"
  by (simp add: Let_def)

section \<open>Properties of the pendulum derivative\<close>

lemma sqrt2_bounds: "1.4142135 \<le> sqrt 2" "sqrt 2 \<le> 1.4142136"
  by (rule real_le_rsqrt, simp add: power2_eq_square)
     (rule real_le_lsqrt, simp_all add: power2_eq_square)

lemma sqrt3_bounds: "1.7320508 \<le> sqrt 3" "sqrt 3 \<le> 1.7320509"
  by (rule real_le_rsqrt, simp add: power2_eq_square)
     (rule real_le_lsqrt, simp_all add: power2_eq_square)

lemma sin_pi12: "sin (pi / 12) = sqrt 2 * (sqrt 3 - 1) / 4"
proof -
  have "pi / 12 = pi / 4 - pi / 6" by simp
  then have "sin (pi / 12) = sin (pi / 4) * cos (pi / 6) - cos (pi / 4) * sin (pi / 6)"
    by (simp only: sin_diff)
  then show ?thesis
    by (simp add: sin_45 cos_45 sin_30 cos_30 algebra_simps)
qed

lemma sin_pi12_bounds: "0.258819 \<le> sin (pi / 12)" "sin (pi / 12) \<le> 0.258820"
proof -
  define x where "x = sqrt 2 * (sqrt 3 - 1)"
  have lo: "1.4142135 * (1.7320508 - 1) \<le> x"
    unfolding x_def using sqrt2_bounds(1) sqrt3_bounds(1) by (intro mult_mono) simp_all
  have hi: "x \<le> 1.4142136 * (1.7320509 - 1)"
    unfolding x_def using sqrt2_bounds sqrt3_bounds by (intro mult_mono) simp_all
  have s: "sin (pi / 12) = x / 4"
    by (simp add: sin_pi12 x_def)
  show "0.258819 \<le> sin (pi / 12)"
    unfolding s using lo by simp
  show "sin (pi / 12) \<le> 0.258820"
    unfolding s using hi by simp
qed

lemma isclose_pi12: "isclose (- 10 * sin (pi / 12)) (- 2.5881904510252074)"
proof -
  define s where "s = sin (pi / 12)"
  have "0.258819 \<le> s" "s \<le> 0.258820"
    using sin_pi12_bounds by (simp_all add: s_def)
  then have "- 10 * s - (- 2.5881904510252074) \<le> 1 / 10 ^ 8 + 1 / 10 ^ 5 * 2.5881904510252074"
    and "- (- 10 * s - (- 2.5881904510252074)) \<le> 1 / 10 ^ 8 + 1 / 10 ^ 5 * 2.5881904510252074"
    by simp_all
  then have "\<bar>- 10 * s - (- 2.5881904510252074)\<bar>
      \<le> 1 / 10 ^ 8 + 1 / 10 ^ 5 * \<bar>- 2.5881904510252074 :: real\<bar>"
    by (simp only: abs_le_iff abs_minus abs_numeral) simp
  then show ?thesis
    by (simp only: s_def isclose_def atol_def rtol_def)
qed

lemma isclose_refl: "isclose a a"
  by (simp add: isclose_def atol_def rtol_def)

text \<open>
  Claim C1. For every pair \<open>(\<theta>, v)\<close> of reals and every time \<open>t\<close>,
  \<open>dthetavdt [\<theta>, v] t\<close> returns a vector of two components: the first is \<open>v\<close>
  itself, the second is \<open>- 10 sin \<theta>\<close> up to the tolerance of \<open>isclose\<close>.
\<close>

theorem dthetavdt_components:
  "\<exists>a b. dthetavdt [\<theta>, v] t = Inr [a, b] \<and> a = v \<and> isclose b (- 10 * sin \<theta>)"
  by (simp add: g_over_L_def isclose_refl)

text \<open>
  Claim C7. For every time \<open>t\<close>, \<open>dthetavdt [\<pi>/12, 0] t\<close> is \<open>allclose\<close> to
  \<open>(0, - 2.5881904510252074)\<close>, and its second component is \<open>- 10 sin (\<pi>/12)\<close>.
\<close>

theorem dthetavdt_pi12:
  "\<exists>out. dthetavdt [pi / 12, 0] t = Inr out
     \<and> allclose out [0, - 2.5881904510252074]
     \<and> out ! 1 = - 10 * sin (pi / 12)"
  using isclose_pi12 by (simp add: g_over_L_def isclose_refl)

section \<open>Dimensions\<close>

text \<open>
  Claim C3. For every state vector of dimension 2 and every time, both derivative
  functions return a vector of dimension 2, which is the dimension of the input and of
  the initial states \<open>[300, 100]\<close> and \<open>(\<theta>0, v0)\<close> given to the solver. For \<open>drfdt\<close>
  this holds of the code on \<^verbatim>\<open>float64\<close> vectors \<open>yf\<close> and of its exact evaluation on
  real vectors \<open>y\<close>.
\<close>

theorem derivative_dimension:
  assumes "length y = 2" and "length yf = 2"
  shows "(\<exists>out. drfdt yf tf = Inr out \<and> length out = 2
            \<and> length out = length yf \<and> length out = length rf0)
       \<and> (\<exists>out. drfdt_exact y t = Inr out \<and> length out = 2
            \<and> length out = length y \<and> length out = length [300, 100 :: real])
       \<and> (\<exists>out. dthetavdt y t = Inr out \<and> length out = 2
            \<and> length out = length y \<and> length out = length [\<theta>0, v0])"
proof -
  from assms(1) obtain a b where y: "y = [a, b]"
    by (cases y; cases "tl y") auto
  from assms(2) obtain c d where yf: "yf = [c, d]"
    by (cases yf; cases "tl yf") auto
  show ?thesis
    unfolding y yf by (simp add: Let_def rf0_def)
qed

theorem derivative_dimension_witness:
  "length [300, 100 :: real] = 2 \<and> length [Finite 300, Finite 100] = 2
   \<and> (\<exists>out. drfdt [Finite 300, Finite 100] (Finite 0) = Inr out
         \<and> length out = 2 \<and> length out = length rf0)
   \<and> (\<exists>out. drfdt_exact [300, 100] 0 = Inr out \<and> length out = 2)
   \<and> (\<exists>out. dthetavdt [300, 100] 0 = Inr out \<and> length out = 2)"
  using derivative_dimension [of "[300, 100]" "[Finite 300, Finite 100]" "Finite 0" 0 "pi / 12" 0]
  by simp

section \<open>The minimiser's result\<close>

lemma py_item_first: "py_item (x # xs) 0 = Inr x"
  by (simp add: py_item_def)

lemma py_item_last: "py_item (xs @ [x]) (- 1) = Inr x"
  by (simp add: py_item_def)

lemma rabbits_reads_last_row:
  "odeint drfdt [Finite 300, Finite 100] [Finite 0, t] = Inr (rows @ [r # fs])
   \<Longrightarrow> rabbits odeint t = Inr r"
  by (simp add: rabbits_def py_item_last py_item_first)

text \<open>
  Claim C8. Whatever the \<^verbatim>\<open>success\<close> flag of the record the minimiser returns, the
  code after the call does the same: the minimising cell prints the record as it is,
  which is the only place where the flag shows, and the next cell reads
  \<^verbatim>\<open>result.x[0]\<close> and prints it, with no test of the flag.
\<close>

theorem rebound_ignores_success:
  "cell_rebound (result\<lparr>res_success := b\<rparr>) = cell_rebound result
   \<and> cell_rebound (result\<lparr>res_x := x0 # xs, res_success := b\<rparr>)
       = Inr [Print [Str ''rabbits rebounded after'', Num x0, Str ''years'']]
   \<and> cell_minimize (\<lambda>objective guess. Inr result) odeint = Inr (result, [Print_result result])"
  by (simp add: cell_rebound_def cell_minimize_def py_item_first)

end
